theory Spec2Isabelle
  imports Complex_Main "HOL-Library.Sublist"
begin

section \<open>Python strings\<close>

text \<open>
  A Python \<open>str\<close> is modelled as a \<open>string\<close>; every \<open>char\<close> stands for the code point
  of the same number (0 to 255), and texts with code points above 255 are outside the
  model. The test \<open>a in b\<close> on strings is \<open>sublist a b\<close>.
  \<open>is_space\<close> is the class \<open>\s\<close> of the \<open>re\<close> module on \<open>str\<close> patterns, which is also what
  \<open>str.strip()\<close> removes: the code points 9 to 13, 28 to 32, 133 and 160 (below 256).
\<close>

definition is_space :: "char \<Rightarrow> bool" where
  "is_space c = (let n = (of_char c :: nat)
                 in (9 \<le> n \<and> n \<le> 13) \<or> (28 \<le> n \<and> n \<le> 32) \<or> n = 133 \<or> n = 160)"

definition is_digit :: "char \<Rightarrow> bool" where
  "is_digit c = (let n = (of_char c :: nat) in 48 \<le> n \<and> n \<le> 57)"

definition strip :: "string \<Rightarrow> string" where
  "strip s = rev (dropWhile is_space (rev (dropWhile is_space s)))"

definition rstrip_dot :: "string \<Rightarrow> string" where
  "rstrip_dot s = rev (dropWhile (\<lambda>c. c = CHR ''.'') (rev s))"

section \<open>extract\_urls\<close>

text \<open>
  \<open>https?://\<close> at the head of a string: the scheme that matched and the rest. A string
  cannot start with both schemes, so the greedy \<open>s?\<close> never has to give its letter back.
\<close>

definition match_scheme :: "string \<Rightarrow> (string \<times> string) option" where
  "match_scheme s =
     (if prefix ''https://'' s then Some (''https://'', drop 8 s)
      else if prefix ''http://'' s then Some (''http://'', drop 7 s)
      else None)"

text \<open>
  One attempt of \<open><(https?://[^>|]+)(?:\|[^>]*)?>\<close> at the head of a string: group 1 and
  the text after the match. \<open>[^>|]+\<close> is greedy and stops at the first closing bracket or
  bar (or at the end of the text); giving characters back cannot help, because the
  character after a shorter run is neither of the two. The same holds for \<open>[^>]*\<close> in the label.
\<close>

definition link_char :: "char \<Rightarrow> bool" where
  "link_char c = (c \<noteq> CHR ''>'' \<and> c \<noteq> CHR ''|'')"

definition match_slack_link :: "string \<Rightarrow> (string \<times> string) option" where
  "match_slack_link s =
     (case s of
        [] \<Rightarrow> None
      | c # r \<Rightarrow>
          if c \<noteq> CHR ''<'' then None
          else (case match_scheme r of
                  None \<Rightarrow> None
                | Some (sch, r1) \<Rightarrow>
                    let body = takeWhile link_char r1;
                        r2 = dropWhile link_char r1
                    in if body = [] then None
                       else (case r2 of
                               [] \<Rightarrow> None
                             | d # r3 \<Rightarrow>
                                 if d = CHR ''>'' then Some (sch @ body, r3)
                                 else (case dropWhile (\<lambda>c. c \<noteq> CHR ''>'') r3 of
                                         [] \<Rightarrow> None
                                       | e # r4 \<Rightarrow> Some (sch @ body, r4)))))"

text \<open>
  One attempt of \<open>https?://C+\<close> for a character class \<open>C\<close>: the whole match and the text
  after it.
\<close>

definition match_plain_url :: "(char \<Rightarrow> bool) \<Rightarrow> string \<Rightarrow> (string \<times> string) option" where
  "match_plain_url cls s =
     (case match_scheme s of
        None \<Rightarrow> None
      | Some (sch, r1) \<Rightarrow>
          if takeWhile cls r1 = [] then None
          else Some (sch @ takeWhile cls r1, dropWhile cls r1))"

lemma match_scheme_Some:
  assumes "match_scheme s = Some (sch, r)"
  shows "s = sch @ r \<and> (sch = ''https://'' \<or> sch = ''http://'')"
proof -
  from assms consider
      (https) "prefix ''https://'' s" "sch = ''https://''" "r = drop 8 s"
    | (http) "prefix ''http://'' s" "sch = ''http://''" "r = drop 7 s"
    by (auto simp: match_scheme_def split: if_splits)
  then show ?thesis
  proof cases
    case https
    from https(1) obtain t where "s = ''https://'' @ t" by (rule prefixE)
    with https show ?thesis by simp
  next
    case http
    from http(1) obtain t where "s = ''http://'' @ t" by (rule prefixE)
    with http show ?thesis by simp
  qed
qed

lemma match_slack_link_shorter:
  assumes "match_slack_link s = Some (u, rest)"
  shows "length rest < length s"
proof -
  from assms obtain r sch r1 where s: "s = CHR ''<'' # r" and m: "match_scheme r = Some (sch, r1)"
    by (auto simp: match_slack_link_def split: list.splits if_splits option.splits)
  from match_scheme_Some [OF m] have r: "length r1 \<le> length r" by auto
  from assms have a: "(case dropWhile link_char r1 of
            [] \<Rightarrow> None
          | d # r3 \<Rightarrow>
              if d = CHR ''>'' then Some (sch @ takeWhile link_char r1, r3)
              else (case dropWhile (\<lambda>c. c \<noteq> CHR ''>'') r3 of
                      [] \<Rightarrow> None
                    | e # r4 \<Rightarrow> Some (sch @ takeWhile link_char r1, r4))) = Some (u, rest)"
    by (simp add: match_slack_link_def s m Let_def split: if_splits)
  then obtain d r3 where c: "dropWhile link_char r1 = d # r3"
    by (cases "dropWhile link_char r1") auto
  have "length (dropWhile link_char r1) \<le> length r1" by (rule length_dropWhile_le)
  with c have l3: "length r3 < length r1" by simp
  show ?thesis
  proof (cases "d = CHR ''>''")
    case True
    with a c have "rest = r3" by simp
    with l3 r s show ?thesis by simp
  next
    case False
    with a c obtain e r4 where c4: "dropWhile (\<lambda>c. c \<noteq> CHR ''>'') r3 = e # r4" and "rest = r4"
      by (cases "dropWhile (\<lambda>c. c \<noteq> CHR ''>'') r3") auto
    moreover have "length (dropWhile (\<lambda>c. c \<noteq> CHR ''>'') r3) \<le> length r3"
      by (rule length_dropWhile_le)
    ultimately have "length rest < length r3" by simp
    with l3 r s show ?thesis by simp
  qed
qed

lemma match_plain_url_shorter:
  assumes "match_plain_url cls s = Some (u, rest)"
  shows "length rest < length s"
proof -
  from assms obtain sch r1 where m: "match_scheme s = Some (sch, r1)"
    and rest: "rest = dropWhile cls r1"
    by (auto simp: match_plain_url_def split: option.splits if_splits)
  from match_scheme_Some [OF m] have "length r1 < length s" by auto
  moreover have "length (dropWhile cls r1) \<le> length r1" by (rule length_dropWhile_le)
  ultimately show ?thesis using rest by simp
qed

text \<open>
  \<open>re.findall\<close>: the matches from left to right, without overlap. The pattern is tried at
  every position; after a match the scan goes on where the match ended, otherwise one
  character further. Neither pattern matches the empty string.
\<close>

function findall_slack :: "string \<Rightarrow> string list" where
  "findall_slack [] = []"
| "findall_slack (c # cs) =
     (case match_slack_link (c # cs) of
        Some (u, rest) \<Rightarrow> u # findall_slack rest
      | None \<Rightarrow> findall_slack cs)"
  by pat_completeness auto
termination
  by (relation "measure length") (auto dest: match_slack_link_shorter)

function findall_plain :: "(char \<Rightarrow> bool) \<Rightarrow> string \<Rightarrow> string list" where
  "findall_plain cls [] = []"
| "findall_plain cls (c # cs) =
     (case match_plain_url cls (c # cs) of
        Some (u, rest) \<Rightarrow> u # findall_plain cls rest
      | None \<Rightarrow> findall_plain cls cs)"
  by pat_completeness auto
termination
  by (relation "measure (\<lambda>(cls, s). length s)") (auto dest: match_plain_url_shorter)

text \<open>The class \<open>[^\s<>"]\<close> of the fallback pattern.\<close>

definition bare_char :: "char \<Rightarrow> bool" where
  "bare_char c = (\<not> is_space c \<and> c \<noteq> CHR ''<'' \<and> c \<noteq> CHR ''>'' \<and> c \<noteq> CHR 0x22)"

definition extract_urls :: "string \<Rightarrow> string list" where
  "extract_urls text =
     (let slack_urls = findall_slack text
      in if slack_urls \<noteq> [] then slack_urls else findall_plain bare_char text)"

section \<open>Errors\<close>

text \<open>
  The exceptions the program can raise, all of them subclasses of \<open>Exception\<close>:
  \<open>RequestError\<close> is what \<open>requests.get\<close> or \<open>resp.json()\<close> raises when the message source
  cannot be reached or does not answer with JSON; \<open>ValueError\<close> is \<open>float()\<close> on a string
  that is not a number; \<open>AttributeError\<close> is \<open>.get\<close> on a JSON value that is not an object;
  \<open>DateRangeError\<close> stands for the \<open>ValueError\<close> or \<open>OverflowError\<close> of \<open>int\<close>, of the true
  division and of \<open>datetime.fromtimestamp\<close> on an instant outside the years 1 to 9999.
\<close>

datatype error = RequestError | ValueError | AttributeError | DateRangeError

section \<open>Calendar dates\<close>

text \<open>
  The proleptic Gregorian date (year, month, day) of a day number counted from
  1970-01-01, which is what \<open>datetime\<close> computes for an instant in UTC.
\<close>

definition civil_from_days :: "int \<Rightarrow> int \<times> int \<times> int" where
  "civil_from_days z =
     (let z' = z + 719468;
          era = z' div 146097;
          doe = z' mod 146097;
          yoe = (doe - doe div 1460 + doe div 36524 - doe div 146096) div 365;
          doy = doe - (365 * yoe + yoe div 4 - yoe div 100);
          mp = (5 * doy + 2) div 153;
          d = doy - (153 * mp + 2) div 5 + 1;
          m = (if mp < 10 then mp + 3 else mp - 9);
          y = yoe + era * 400
      in (if m \<le> 2 then y + 1 else y, m, d))"

definition digit_char :: "int \<Rightarrow> char" where
  "digit_char d = ''0123456789'' ! nat (d mod 10)"

text \<open>
  \<open>strftime("%Y-%m-%d")\<close>, on the years 1 to 9999 that a \<open>datetime\<close> can hold: four
  digits for the year, two for the month and for the day.
\<close>

definition strftime_ymd :: "int \<times> int \<times> int \<Rightarrow> string" where
  "strftime_ymd dt =
     (case dt of (y, m, d) \<Rightarrow>
        [digit_char (y div 1000), digit_char (y div 100), digit_char (y div 10),
         digit_char y, CHR ''-'',
         digit_char (m div 10), digit_char m, CHR ''-'',
         digit_char (d div 10), digit_char d])"

definition round_half_even :: "rat \<Rightarrow> int" where
  "round_half_even x =
     (let f = \<lfloor>x\<rfloor>; r = x - of_int f
      in if r < 1 / 2 then f
         else if 1 / 2 < r then f + 1
         else if even f then f else f + 1)"

text \<open>
  \<open>datetime.fromtimestamp(t, tz=timezone.utc)\<close>, as far as its date goes: the instant is
  rounded to microseconds (half to even) and must fall between 0001-01-01 and 9999-12-31,
  the days -719162 and 2932896. A Python float is taken as the rational it denotes; the
  rounding of the double itself is not modelled.
\<close>

definition utc_fromtimestamp :: "rat \<Rightarrow> error + (int \<times> int \<times> int)" where
  "utc_fromtimestamp t =
     (let us = round_half_even (t * 1000000);
          days = us div 86400000000
      in if days < - 719162 \<or> 2932896 < days then Inl DateRangeError
         else Inr (civil_from_days days))"

section \<open>decode\_linkedin\_activity\_date\<close>

definition int_of_digits :: "string \<Rightarrow> int" where
  "int_of_digits ds = foldl (\<lambda>a c. 10 * a + (int (of_char c) - 48)) 0 ds"

text \<open>One attempt of \<open>activity[:-](\d+)\<close> at the head of a string: group 1.\<close>

definition match_activity :: "string \<Rightarrow> string option" where
  "match_activity s =
     (if prefix ''activity'' s
      then (case drop 8 s of
              [] \<Rightarrow> None
            | c # r \<Rightarrow>
                if (c = CHR '':'' \<or> c = CHR ''-'') \<and> takeWhile is_digit r \<noteq> []
                then Some (takeWhile is_digit r) else None)
      else None)"

text \<open>\<open>re.search\<close>: the first position, from the left, where the pattern matches.\<close>

fun search_activity :: "string \<Rightarrow> string option" where
  "search_activity [] = None"
| "search_activity (c # cs) =
     (case match_activity (c # cs) of
        Some ds \<Rightarrow> Some ds
      | None \<Rightarrow> search_activity cs)"

definition decode_linkedin_activity_date :: "string \<Rightarrow> error + string option" where
  "decode_linkedin_activity_date url =
     (case search_activity url of
        None \<Rightarrow> Inr None
      | Some ds \<Rightarrow>
          let activity_id = int_of_digits ds;
              timestamp_ms = drop_bit 22 activity_id
          in (case utc_fromtimestamp (of_int timestamp_ms / 1000) of
                Inl e \<Rightarrow> Inl e
              | Inr dt \<Rightarrow> Inr (Some (strftime_ymd dt))))"

section \<open>extract\_job\_urls\_from\_page\<close>

definition JOB_BOARD_PATTERNS :: "string list" where
  "JOB_BOARD_PATTERNS =
     [''greenhouse.io'', ''boards.greenhouse.io'',
      ''lever.co'', ''jobs.lever.co'',
      ''ashbyhq.com'', ''jobs.ashbyhq.com'',
      ''workday.com'', ''myworkdayjobs.com'',
      ''smartrecruiters.com'',
      ''jobvite.com'',
      ''icims.com'',
      ''applytojob.com'',
      ''bamboohr.com'',
      ''recruitee.com'',
      ''workable.com'',
      ''breezy.hr'',
      ''jazz.co'', ''resumator.com'',
      ''wellfound.com'',
      ''linkedin.com/jobs/view'']"

text \<open>The class \<open>[^\s<>"\'\\,;)}\]]\<close> of the pattern that finds URLs in a page.\<close>

definition page_char :: "char \<Rightarrow> bool" where
  "page_char c =
     (\<not> is_space c \<and> c \<noteq> CHR ''<'' \<and> c \<noteq> CHR ''>'' \<and> c \<noteq> CHR 0x22 \<and> c \<noteq> CHR 0x27
      \<and> c \<noteq> CHR 0x5C \<and> c \<noteq> CHR '','' \<and> c \<noteq> CHR '';'' \<and> c \<noteq> CHR '')'' \<and> c \<noteq> CHR ''}''
      \<and> c \<noteq> CHR '']'')"

text \<open>The loop over \<open>raw_urls\<close>, with its two variables \<open>seen\<close> and \<open>job_urls\<close>.\<close>

fun collect_job_urls :: "string \<Rightarrow> string list \<Rightarrow> string set \<Rightarrow> string list \<Rightarrow> string list" where
  "collect_job_urls source_url [] seen job_urls = job_urls"
| "collect_job_urls source_url (raw # raw_urls) seen job_urls =
     (let url = rstrip_dot raw
      in if url = source_url then collect_job_urls source_url raw_urls seen job_urls
         else if list_ex (\<lambda>domain. sublist domain url) JOB_BOARD_PATTERNS \<and> url \<notin> seen
         then collect_job_urls source_url raw_urls (insert url seen) (job_urls @ [url])
         else collect_job_urls source_url raw_urls seen job_urls)"

definition extract_job_urls_from_page :: "string \<Rightarrow> string \<Rightarrow> string list" where
  "extract_job_urls_from_page page_content source_url =
     collect_job_urls source_url (findall_plain page_char page_content) {} []"

section \<open>Sorting URLs into the social post and the job links\<close>

definition is_linkedin_post :: "string \<Rightarrow> bool" where
  "is_linkedin_post u =
     (sublist ''linkedin.com'' u
      \<and> (sublist ''/feed/'' u \<or> sublist ''/posts/'' u \<or> sublist ''activity'' u))"

text \<open>
  The loop \<open>for u in urls\<close> of \<open>poll_and_process\<close>, with its two variables
  \<open>linkedin_post_url\<close> and \<open>job_urls\<close>.
\<close>

fun categorize_urls :: "string list \<Rightarrow> string option \<Rightarrow> string list \<Rightarrow> string option \<times> string list" where
  "categorize_urls [] linkedin_post_url job_urls = (linkedin_post_url, job_urls)"
| "categorize_urls (u # urls) linkedin_post_url job_urls =
     (if is_linkedin_post u then categorize_urls urls (Some u) job_urls
      else categorize_urls urls linkedin_post_url (job_urls @ [u]))"

section \<open>JSON values and dictionaries\<close>

text \<open>
  What \<open>json.loads\<close> returns. Python's \<open>None\<close> is \<open>JNull\<close>; a number stands for its value
  as far as truth goes (zero or not). The items of a \<open>JObj\<close> are those of the \<open>dict\<close> that
  \<open>json.loads\<close> builds, each key once. A \<open>dict\<close> with string keys is a map, where a key
  that is not there is \<open>None\<close> of the map.
\<close>

datatype json =
    JNull
  | JBool bool
  | JNum int
  | JStr string
  | JArr "json list"
  | JObj "(string \<times> json) list"

text \<open>The truth value of a Python object, as \<open>if x:\<close>, \<open>not x\<close> and \<open>x or y\<close> test it.\<close>

fun truthy :: "json \<Rightarrow> bool" where
  "truthy JNull = False"
| "truthy (JBool b) = b"
| "truthy (JNum n) = (n \<noteq> 0)"
| "truthy (JStr s) = (s \<noteq> [])"
| "truthy (JArr xs) = (xs \<noteq> [])"
| "truthy (JObj kvs) = (kvs \<noteq> [])"

definition py_or :: "json \<Rightarrow> json \<Rightarrow> json" where
  "py_or a b = (if truthy a then a else b)"

text \<open>\<open>d.get(k)\<close> and \<open>d.get(k, default)\<close>.\<close>

definition dict_get :: "(string \<rightharpoonup> json) \<Rightarrow> string \<Rightarrow> json" where
  "dict_get d k = (case d k of None \<Rightarrow> JNull | Some v \<Rightarrow> v)"

definition dict_get_default :: "(string \<rightharpoonup> json) \<Rightarrow> string \<Rightarrow> json \<Rightarrow> json" where
  "dict_get_default d k dflt = (case d k of None \<Rightarrow> dflt | Some v \<Rightarrow> v)"

text \<open>An optional string (\<open>str | None\<close>) as a Python object.\<close>

definition json_of_str :: "string option \<Rightarrow> json" where
  "json_of_str s = (case s of None \<Rightarrow> JNull | Some t \<Rightarrow> JStr t)"

section \<open>The record written to the database\<close>

text \<open>
  The \<open>properties\<close> dictionary of \<open>create_notion_entry\<close>, in the order in which its keys
  are set; each value is the kind of the Notion property with the content put into it.
\<close>

datatype notion_prop =
    Title json
  | RichText json
  | Url json
  | Select json
  | Date json

type_synonym properties = "(string \<times> notion_prop) list"

definition text_property :: "string \<Rightarrow> json \<Rightarrow> properties \<Rightarrow> properties" where
  "text_property prop v properties =
     (if truthy v then properties @ [(prop, RichText v)] else properties)"

definition notion_properties :: "(string \<rightharpoonup> json) \<Rightarrow> string \<Rightarrow> json \<Rightarrow> properties" where
  "notion_properties details source job_listed_date =
     (let p0 = [(''Company Name'', Title (py_or (dict_get details ''company_name'') (JStr ''Unknown'')))];
          p1 = text_property ''Open Role'' (dict_get details ''open_role'') p0;
          p2 = text_property ''Location'' (dict_get details ''location'') p1;
          p3 = text_property ''Compensation Range'' (dict_get details ''compensation_range'') p2;
          p4 = text_property ''Source'' (JStr source) p3;
          link = dict_get details ''link_to_apply'';
          p5 = (if truthy link then p4 @ [(''Link to Apply'', Url link)] else p4);
          job_type = dict_get_default details ''job_type'' (JStr ''Full-time'');
          p6 = (if job_type = JStr ''Full-time'' \<or> job_type = JStr ''Part-time''
                then p5 @ [(''Job Type'', Select job_type)] else p5);
          p7 = (if truthy job_listed_date
                then p6 @ [(''Job Listed Date'', Date job_listed_date)] else p6)
      in p7)"

section \<open>The outside world\<close>

text \<open>
  What the services answer. \<open>SlackData ok messages\<close> is the JSON object of
  \<open>conversations.history\<close>: the truth value of its \<open>ok\<close> and its \<open>messages\<close> (empty when the
  key is missing); a message has its \<open>ts\<close> and may lack its \<open>text\<close>. \<open>HttpResponse\<close> carries
  the status code and \<open>resp.text\<close>. The LLM answers with the value that \<open>json.loads\<close> reads
  from its reply, after the code fences are stripped, or with \<open>None\<close> when the call or the
  parsing raises. \<open>QueryResults\<close> is the list \<open>results["results"]\<close>. Creating a page either
  succeeds or raises.
\<close>

datatype message = Message (msg_text: "string option") (msg_ts: string)

datatype slack_result = SlackRaised | SlackData bool "message list"

datatype http_result = HttpRaised | HttpResponse nat string

datatype query_result = QueryRaised | QueryResults "properties list"

text \<open>One entry per effect of the program, in the order in which they happen.\<close>

datatype event =
    EReadCheckpoint "string option"
  | EWriteCheckpoint string
  | ESlackHistory string slack_result
  | EHttpGet string http_result
  | EClaude string string "json option"
  | ENotionQuery json query_result
  | ENotionCreate properties bool
  | ESlackReaction string string
  | ELogError error
  | ESleep nat

text \<open>
  The services may answer differently from one call to the next: each answer is a
  function of everything that has happened so far and of the request.
\<close>

record env =
  slack_history :: "event list \<Rightarrow> string \<Rightarrow> slack_result"
  http_get :: "event list \<Rightarrow> string \<Rightarrow> http_result"
  claude_create :: "event list \<Rightarrow> string \<Rightarrow> string \<Rightarrow> json option"
  notion_query :: "event list \<Rightarrow> json \<Rightarrow> query_result"
  notion_create :: "event list \<Rightarrow> properties \<Rightarrow> bool"

section \<open>Programs with effects\<close>

text \<open>
  A computation returns, raises, or performs one effect and goes on with its answer:
  reading or writing the checkpoint file \<open>last_processed_ts.txt\<close>, a call of one of the
  services, a reaction posted to the channel (whose answer the program never looks at).
  The \<open>log\<close> calls of \<open>main.py\<close> change nothing the program reads and are left out.
\<close>

datatype 'a prog =
    Ret 'a
  | Raise error
  | ReadCheckpoint "string option \<Rightarrow> 'a prog"
  | WriteCheckpoint string "'a prog"
  | SlackHistory string "slack_result \<Rightarrow> 'a prog"
  | HttpGet string "http_result \<Rightarrow> 'a prog"
  | ClaudeCreate string string "json option \<Rightarrow> 'a prog"
  | NotionQuery json "query_result \<Rightarrow> 'a prog"
  | NotionCreate properties "bool \<Rightarrow> 'a prog"
  | SlackReaction string string "'a prog"

text \<open>Sequencing: an exception of the first part skips the second.\<close>

primrec bind_prog :: "'a prog \<Rightarrow> ('a \<Rightarrow> 'b prog) \<Rightarrow> 'b prog" where
  "bind_prog (Ret x) g = g x"
| "bind_prog (Raise e) g = Raise e"
| "bind_prog (ReadCheckpoint k) g = ReadCheckpoint (\<lambda>r. bind_prog (k r) g)"
| "bind_prog (WriteCheckpoint ts k) g = WriteCheckpoint ts (bind_prog k g)"
| "bind_prog (SlackHistory oldest k) g = SlackHistory oldest (\<lambda>r. bind_prog (k r) g)"
| "bind_prog (HttpGet url k) g = HttpGet url (\<lambda>r. bind_prog (k r) g)"
| "bind_prog (ClaudeCreate url content k) g = ClaudeCreate url content (\<lambda>r. bind_prog (k r) g)"
| "bind_prog (NotionQuery link k) g = NotionQuery link (\<lambda>r. bind_prog (k r) g)"
| "bind_prog (NotionCreate props k) g = NotionCreate props (\<lambda>r. bind_prog (k r) g)"
| "bind_prog (SlackReaction ts emoji k) g = SlackReaction ts emoji (bind_prog k g)"

definition cons_event ::
  "event \<Rightarrow> event list \<times> string option \<times> (error + 'a) \<Rightarrow> event list \<times> string option \<times> (error + 'a)" where
  "cons_event ev res = (case res of (t, f, r) \<Rightarrow> (ev # t, f, r))"

text \<open>
  Running a computation against the services \<open>e\<close>, after the events \<open>h\<close> and with the
  checkpoint file \<open>f\<close> (\<open>None\<close> when the file does not exist): the events of the run, the
  file afterwards, and the exception or the result.
\<close>

primrec exec ::
  "'a prog \<Rightarrow> env \<Rightarrow> event list \<Rightarrow> string option \<Rightarrow> event list \<times> string option \<times> (error + 'a)" where
  "exec (Ret x) e h f = ([], f, Inr x)"
| "exec (Raise err) e h f = ([], f, Inl err)"
| "exec (ReadCheckpoint k) e h f =
     cons_event (EReadCheckpoint f) (exec (k f) e (h @ [EReadCheckpoint f]) f)"
| "exec (WriteCheckpoint ts k) e h f =
     cons_event (EWriteCheckpoint ts) (exec k e (h @ [EWriteCheckpoint ts]) (Some ts))"
| "exec (SlackHistory oldest k) e h f =
     (let r = slack_history e h oldest
      in cons_event (ESlackHistory oldest r) (exec (k r) e (h @ [ESlackHistory oldest r]) f))"
| "exec (HttpGet url k) e h f =
     (let r = http_get e h url
      in cons_event (EHttpGet url r) (exec (k r) e (h @ [EHttpGet url r]) f))"
| "exec (ClaudeCreate url content k) e h f =
     (let r = claude_create e h url content
      in cons_event (EClaude url content r) (exec (k r) e (h @ [EClaude url content r]) f))"
| "exec (NotionQuery link k) e h f =
     (let r = notion_query e h link
      in cons_event (ENotionQuery link r) (exec (k r) e (h @ [ENotionQuery link r]) f))"
| "exec (NotionCreate props k) e h f =
     (let r = notion_create e h props
      in cons_event (ENotionCreate props r) (exec (k r) e (h @ [ENotionCreate props r]) f))"
| "exec (SlackReaction ts emoji k) e h f =
     cons_event (ESlackReaction ts emoji) (exec k e (h @ [ESlackReaction ts emoji]) f)"

section \<open>The functions of main.py\<close>

definition get_last_processed_ts :: "string prog" where
  "get_last_processed_ts =
     ReadCheckpoint (\<lambda>file. case file of Some content \<Rightarrow> Ret (strip content) | None \<Rightarrow> Ret ''0'')"

definition save_last_processed_ts :: "string \<Rightarrow> unit prog" where
  "save_last_processed_ts ts = WriteCheckpoint ts (Ret ())"

text \<open>
  \<open>resp.raise_for_status()\<close> raises on the status codes 400 to 599 and on no other;
  \<open>except Exception\<close> turns that, and whatever \<open>requests.get\<close> raises, into the empty
  string.
\<close>

definition fetch_page_content :: "string \<Rightarrow> string prog" where
  "fetch_page_content url =
     HttpGet url (\<lambda>resp.
       case resp of
         HttpRaised \<Rightarrow> Ret []
       | HttpResponse status_code text \<Rightarrow>
           if 400 \<le> status_code \<and> status_code < 600 then Ret []
           else Ret (take 15000 text))"

text \<open>
  The prompt is a fixed text around \<open>url\<close> and \<open>content_sections\<close>; the request is given
  by these two. A reply that cannot be used (\<open>except Exception\<close>) gives \<open>None\<close>.
\<close>

definition content_sections :: "string \<Rightarrow> string option \<Rightarrow> string" where
  "content_sections page_content linkedin_post_content =
     (case linkedin_post_content of
        None \<Rightarrow> []
      | Some c \<Rightarrow>
          if c = [] then []
          else ''LinkedIn Post Content (use this for company name if not found in job page):''
               @ [CHR 0x0A] @ take 8000 c @ [CHR 0x0A, CHR 0x0A] @ ''---'' @ [CHR 0x0A, CHR 0x0A])
     @ (if page_content \<noteq> [] then ''Job Page HTML Content:'' @ [CHR 0x0A] @ page_content
        else [])"

definition is_set :: "string option \<Rightarrow> bool" where
  "is_set s = (case s of None \<Rightarrow> False | Some t \<Rightarrow> t \<noteq> [])"

definition extract_job_details :: "string \<Rightarrow> string \<Rightarrow> string \<Rightarrow> string option \<Rightarrow> json prog" where
  "extract_job_details page_content url source_url linkedin_post_content =
     (if page_content = [] \<and> \<not> is_set linkedin_post_content then Ret JNull
      else ClaudeCreate url (content_sections page_content linkedin_post_content)
             (\<lambda>reply. case reply of None \<Rightarrow> Ret JNull | Some v \<Rightarrow> Ret v))"

definition is_duplicate :: "json \<Rightarrow> bool prog" where
  "is_duplicate link_to_apply =
     NotionQuery link_to_apply (\<lambda>results.
       case results of
         QueryRaised \<Rightarrow> Ret False
       | QueryResults rs \<Rightarrow> Ret (rs \<noteq> []))"

definition create_notion_entry :: "(string \<rightharpoonup> json) \<Rightarrow> string \<Rightarrow> json \<Rightarrow> bool prog" where
  "create_notion_entry details source job_listed_date =
     (let link = dict_get details ''link_to_apply''
      in bind_prog (if truthy link then is_duplicate link else Ret False) (\<lambda>duplicate.
           if duplicate then Ret False
           else NotionCreate (notion_properties details source job_listed_date) (\<lambda>ok. Ret ok)))"

definition post_slack_reaction :: "string \<Rightarrow> string \<Rightarrow> unit prog" where
  "post_slack_reaction timestamp emoji = SlackReaction timestamp emoji (Ret ())"

section \<open>poll\_and\_process\<close>

text \<open>
  \<open>float(s)\<close> is a parameter \<open>float_of\<close> of the model: the number that the string denotes,
  or \<open>None\<close> where \<open>float\<close> raises \<open>ValueError\<close>. Infinities and NaN, which no timestamp
  of the channel is, have no rational value and are outside the model.
\<close>

definition combined_post_ctx :: "string \<Rightarrow> string option \<Rightarrow> string option" where
  "combined_post_ctx text post_ctx =
     (let slack_ctx = (if text \<noteq> [] then ''Slack message text: '' @ text @ [CHR 0x0A, CHR 0x0A]
                       else []);
          combined = strip (slack_ctx @ (case post_ctx of None \<Rightarrow> [] | Some c \<Rightarrow> c))
      in if combined = [] then None else Some combined)"

text \<open>The body of \<open>for job_url in job_urls\<close>.\<close>

definition process_job_url ::
  "string \<Rightarrow> string \<Rightarrow> string option \<Rightarrow> string option \<Rightarrow> string \<Rightarrow> string option \<Rightarrow> string
   \<Rightarrow> string \<Rightarrow> unit prog" where
  "process_job_url text ts linkedin_post_url linkedin_post_content source_url linkedin_date
     slack_date job_url =
     bind_prog (fetch_page_content job_url) (\<lambda>content.
       let post_ctx = (if Some job_url \<noteq> linkedin_post_url then linkedin_post_content else None)
       in bind_prog (extract_job_details content job_url source_url
                       (combined_post_ctx text post_ctx)) (\<lambda>details.
            if truthy details then
              (case details of
                 JObj items \<Rightarrow>
                   let d = map_of items;
                       d1 = (if \<not> truthy (dict_get d ''link_to_apply'')
                             then d(''link_to_apply'' \<mapsto> JStr job_url) else d);
                       job_date = py_or (py_or (dict_get d1 ''job_listed_date'')
                                           (json_of_str linkedin_date)) (JStr slack_date);
                       d2 = d1(''job_listed_date'' := None)
                   in bind_prog (create_notion_entry d2 source_url job_date) (\<lambda>success.
                        if success then post_slack_reaction ts ''white_check_mark''
                        else Ret ())
               | _ \<Rightarrow> Raise AttributeError)
            else post_slack_reaction ts ''warning''))"

fun process_job_urls ::
  "string \<Rightarrow> string \<Rightarrow> string option \<Rightarrow> string option \<Rightarrow> string \<Rightarrow> string option \<Rightarrow> string
   \<Rightarrow> string list \<Rightarrow> unit prog" where
  "process_job_urls text ts lp lc source_url linkedin_date slack_date [] = Ret ()"
| "process_job_urls text ts lp lc source_url linkedin_date slack_date (job_url # job_urls) =
     bind_prog (process_job_url text ts lp lc source_url linkedin_date slack_date job_url)
       (\<lambda>_. process_job_urls text ts lp lc source_url linkedin_date slack_date job_urls)"

text \<open>
  The body of \<open>for msg in messages\<close>: the computation of the new value of \<open>latest_ts\<close>.
  \<open>continue\<close> leaves the body before \<open>latest_ts = ts\<close>.
\<close>

definition process_message :: "(string \<Rightarrow> rat option) \<Rightarrow> message \<Rightarrow> string \<Rightarrow> string prog" where
  "process_message float_of msg latest_ts =
     (let text = (case msg_text msg of None \<Rightarrow> [] | Some t \<Rightarrow> t);
          ts = msg_ts msg;
          urls = extract_urls text
      in case urls of
           [] \<Rightarrow> Ret latest_ts
         | first_url # _ \<Rightarrow>
             (case categorize_urls urls None [] of
                (linkedin_post_url, direct_urls) \<Rightarrow>
                  bind_prog
                    (case linkedin_post_url of
                       None \<Rightarrow> Ret None
                     | Some u \<Rightarrow>
                         if u = [] then Ret None
                         else bind_prog (fetch_page_content u) (\<lambda>c. Ret (Some c)))
                    (\<lambda>linkedin_post_content.
                       let job_urls =
                             (if direct_urls = [] \<and> is_set linkedin_post_url
                              then (let embedded_job_urls =
                                          extract_job_urls_from_page
                                            (case linkedin_post_content of None \<Rightarrow> [] | Some c \<Rightarrow> c)
                                            (the linkedin_post_url)
                                    in if embedded_job_urls \<noteq> [] then embedded_job_urls
                                       else [the linkedin_post_url])
                              else direct_urls);
                           source_url = (if is_set linkedin_post_url then the linkedin_post_url
                                         else first_url)
                       in case (if is_set linkedin_post_url
                                then decode_linkedin_activity_date (the linkedin_post_url)
                                else Inr None) of
                            Inl err \<Rightarrow> Raise err
                          | Inr linkedin_date \<Rightarrow>
                              (case float_of ts of
                                 None \<Rightarrow> Raise ValueError
                               | Some t \<Rightarrow>
                                   (case utc_fromtimestamp t of
                                      Inl err \<Rightarrow> Raise err
                                    | Inr dt \<Rightarrow>
                                        bind_prog
                                          (process_job_urls text ts linkedin_post_url
                                             linkedin_post_content source_url linkedin_date
                                             (strftime_ymd dt) job_urls)
                                          (\<lambda>_. Ret ts))))))"

fun process_messages :: "(string \<Rightarrow> rat option) \<Rightarrow> message list \<Rightarrow> string \<Rightarrow> string prog" where
  "process_messages float_of [] latest_ts = Ret latest_ts"
| "process_messages float_of (msg # messages) latest_ts =
     bind_prog (process_message float_of msg latest_ts) (process_messages float_of messages)"

text \<open>
  \<open>messages.sort(key=lambda m: float(m["ts"]))\<close> computes every key first, and raises if one
  of them cannot be read; the sort is stable.
\<close>

definition poll_and_process :: "(string \<Rightarrow> rat option) \<Rightarrow> unit prog" where
  "poll_and_process float_of =
     bind_prog get_last_processed_ts (\<lambda>last_ts.
       SlackHistory last_ts (\<lambda>resp.
         case resp of
           SlackRaised \<Rightarrow> Raise RequestError
         | SlackData ok messages \<Rightarrow>
             if \<not> ok then Ret ()
             else if messages = [] then Ret ()
             else if list_ex (\<lambda>m. float_of (msg_ts m) = None) messages then Raise ValueError
             else bind_prog
                    (process_messages float_of
                       (sort_key (\<lambda>m. the (float_of (msg_ts m))) messages) last_ts)
                    save_last_processed_ts))"

section \<open>scheduler.py\<close>




section \<open>Example environments\<close>

text \<open>
  Services that give the same answer to every call, and \<open>float\<close> on the strings of
  decimal digits, for the examples below.
\<close>

definition const_env ::
  "slack_result \<Rightarrow> http_result \<Rightarrow> json option \<Rightarrow> query_result \<Rightarrow> bool \<Rightarrow> env" where
  "const_env s p l q c =
     \<lparr>slack_history = (\<lambda>h oldest. s), http_get = (\<lambda>h url. p),
      claude_create = (\<lambda>h url content. l), notion_query = (\<lambda>h link. q),
      notion_create = (\<lambda>h props. c)\<rparr>"

definition float_of_digits :: "string \<Rightarrow> rat option" where
  "float_of_digits s =
     (if s \<noteq> [] \<and> list_all is_digit s then Some (of_int (int_of_digits s)) else None)"

section \<open>Running a sequence\<close>

lemma exec_bind:
  "exec (bind_prog m g) e h f =
     (case exec m e h f of
        (t, f', Inl err) \<Rightarrow> (t, f', Inl err)
      | (t, f', Inr x) \<Rightarrow> (case exec (g x) e (h @ t) f' of (t', f'', r) \<Rightarrow> (t @ t', f'', r)))"
  by (induction m arbitrary: h f)
     (auto simp: cons_event_def Let_def split: prod.splits sum.splits)

section \<open>The fields of a created record\<close>

lemma exec_create_notion_entry_events:
  assumes "ENotionCreate props ok \<in> set (fst (exec (create_notion_entry details source d) e h f))"
  shows "props = notion_properties details source d"
  using assms
  by (auto simp: create_notion_entry_def is_duplicate_def exec_bind cons_event_def Let_def
           split: if_splits query_result.splits)

lemma map_of_if_snoc_other:
  "k' \<noteq> k \<Longrightarrow> map_of (if c then ps @ [(k', v)] else ps) k = map_of ps k"
  by (simp add: map_add_def split: option.splits)

lemma map_of_if_snoc_same:
  "map_of ps k = None \<Longrightarrow> map_of (if c then ps @ [(k, v)] else ps) k = (if c then Some v else None)"
  by (simp add: map_add_def)

lemma map_of_text_property:
  "prop \<noteq> k \<Longrightarrow> map_of (text_property prop v ps) k = map_of ps k"
  unfolding text_property_def by (rule map_of_if_snoc_other)

lemma job_type_of_notion_properties:
  "map_of (notion_properties details source d) ''Job Type'' =
     (case details ''job_type'' of
        None \<Rightarrow> Some (Select (JStr ''Full-time''))
      | Some v \<Rightarrow> if v = JStr ''Full-time'' \<or> v = JStr ''Part-time'' then Some (Select v) else None)"
proof -
  let ?p4 = "text_property ''Source'' (JStr source)
               (text_property ''Compensation Range'' (dict_get details ''compensation_range'')
                  (text_property ''Location'' (dict_get details ''location'')
                     (text_property ''Open Role'' (dict_get details ''open_role'')
                        [(''Company Name'',
                          Title (py_or (dict_get details ''company_name'') (JStr ''Unknown'')))])))"
  let ?link = "dict_get details ''link_to_apply''"
  let ?p5 = "if truthy ?link then ?p4 @ [(''Link to Apply'', Url ?link)] else ?p4"
  let ?jt = "dict_get_default details ''job_type'' (JStr ''Full-time'')"
  let ?p6 = "if ?jt = JStr ''Full-time'' \<or> ?jt = JStr ''Part-time''
             then ?p5 @ [(''Job Type'', Select ?jt)] else ?p5"
  have p4: "map_of ?p4 ''Job Type'' = None"
    by (simp add: map_of_text_property)
  have p5: "map_of ?p5 ''Job Type'' = None"
    using p4 by (simp only: map_of_if_snoc_other [of "''Link to Apply''" "''Job Type''", simplified])
  have p6: "map_of ?p6 ''Job Type''
      = (if ?jt = JStr ''Full-time'' \<or> ?jt = JStr ''Part-time'' then Some (Select ?jt) else None)"
    using p5 by (rule map_of_if_snoc_same)
  have "map_of (notion_properties details source d) ''Job Type'' = map_of ?p6 ''Job Type''"
    unfolding notion_properties_def Let_def
    by (rule map_of_if_snoc_other) simp
  with p6 show ?thesis
    by (simp add: dict_get_default_def split: option.splits)
qed

text \<open>
  C9. Whenever \<open>create_notion_entry\<close> issues a create call, the record has no
  \<open>Job Type\<close> field if \<open>job_type\<close> is present in the details with the value null; it has
  the field with the default \<open>Full-time\<close> if the key \<open>job_type\<close> is absent; and the field is
  \<open>Full-time\<close> only if the key is absent or bound to that very string, so never on null.
\<close>

theorem create_notion_entry_job_type:
  assumes "ENotionCreate props ok \<in> set (fst (exec (create_notion_entry details source d) e h f))"
  shows "(details ''job_type'' = Some JNull \<longrightarrow> map_of props ''Job Type'' = None)
       \<and> (details ''job_type'' = None \<longrightarrow> map_of props ''Job Type'' = Some (Select (JStr ''Full-time'')))
       \<and> (map_of props ''Job Type'' = Some (Select (JStr ''Full-time''))
            \<longrightarrow> details ''job_type'' = None \<or> details ''job_type'' = Some (JStr ''Full-time''))"
proof -
  from assms have "props = notion_properties details source d"
    by (rule exec_create_notion_entry_events)
  then show ?thesis
    by (auto simp: job_type_of_notion_properties split: option.splits if_splits)
qed

theorem create_notion_entry_job_type_witness:
  "ENotionCreate [(''Company Name'', Title (JStr ''Acme''))] True
     \<in> set (fst (exec (create_notion_entry [''company_name'' \<mapsto> JStr ''Acme'', ''job_type'' \<mapsto> JNull]
                        [] JNull)
                    (const_env SlackRaised HttpRaised None QueryRaised True) [] None))
   \<and> [''company_name'' \<mapsto> JStr ''Acme'', ''job_type'' \<mapsto> JNull] ''job_type'' = Some JNull
   \<and> map_of [(''Company Name'', Title (JStr ''Acme''))] ''Job Type'' = None"
proof -
  have ev: "ENotionCreate [(''Company Name'', Title (JStr ''Acme''))] True
     \<in> set (fst (exec (create_notion_entry [''company_name'' \<mapsto> JStr ''Acme'', ''job_type'' \<mapsto> JNull]
                        [] JNull)
                    (const_env SlackRaised HttpRaised None QueryRaised True) [] None))"
    by (simp add: create_notion_entry_def notion_properties_def text_property_def dict_get_def
          dict_get_default_def py_or_def const_env_def cons_event_def)
  from create_notion_entry_job_type [OF ev] ev show ?thesis by simp
qed

section \<open>The social post among the URLs of a message\<close>

lemma categorize_urls_acc:
  "categorize_urls urls lp ju =
     ((case filter is_linkedin_post urls of [] \<Rightarrow> lp | p # ps \<Rightarrow> Some (last (p # ps))),
      ju @ filter (\<lambda>u. \<not> is_linkedin_post u) urls)"
proof (induction urls arbitrary: lp ju)
  case Nil
  show ?case by simp
next
  case (Cons u urls)
  show ?case
  proof (cases "is_linkedin_post u")
    case True
    then show ?thesis
      by (simp add: Cons.IH split: list.splits)
  next
    case False
    then show ?thesis
      by (simp add: Cons.IH)
  qed
qed

text \<open>
  C2, as the code has it. Of the URLs of a message that have the shape of a social post,
  the one kept as \<open>linkedin_post_url\<close> is the last in the list (each one found replaces the
  one before); there is none exactly when no URL has that shape. Every other URL goes to
  the list of direct job links, in the order of the message.
\<close>

theorem categorize_urls_keeps_last:
  "categorize_urls urls None [] =
     ((case filter is_linkedin_post urls of [] \<Rightarrow> None | p # ps \<Rightarrow> Some (last (p # ps))),
      filter (\<lambda>u. \<not> is_linkedin_post u) urls)"
  by (simp add: categorize_urls_acc)

theorem categorize_urls_keeps_last_witness:
  "categorize_urls [''https://linkedin.com/posts/a'', ''https://jobs.lever.co/x'',
                    ''https://linkedin.com/feed/b''] None []
     = (Some ''https://linkedin.com/feed/b'', [''https://jobs.lever.co/x''])"
proof -
  have "is_linkedin_post ''https://linkedin.com/posts/a''"
    and "\<not> is_linkedin_post ''https://jobs.lever.co/x''"
    and "is_linkedin_post ''https://linkedin.com/feed/b''"
    by (simp_all add: is_linkedin_post_def sublist_code)
  then show ?thesis
    using categorize_urls_keeps_last [of "[''https://linkedin.com/posts/a'',
      ''https://jobs.lever.co/x'', ''https://linkedin.com/feed/b'']"]
    by simp
qed

text \<open>
  C2 as the specification states it fails: of two social posts in one message the first
  one is not the one kept.
\<close>

theorem categorize_urls_first_not_kept:
  "is_linkedin_post ''https://linkedin.com/posts/a''
   \<and> is_linkedin_post ''https://linkedin.com/posts/b''
   \<and> fst (categorize_urls [''https://linkedin.com/posts/a'', ''https://linkedin.com/posts/b'']
             None [])
       \<noteq> Some ''https://linkedin.com/posts/a''"
  by (simp add: is_linkedin_post_def sublist_code)

section \<open>The page fetcher\<close>

text \<open>
  C7, as the code has it. \<open>fetch_page_content\<close> makes one request and always returns,
  never raises, and leaves the checkpoint file alone. What it returns has at most 15000
  characters: the empty string when the request raised (network error, timeout) or the
  status is 400 to 599, and the first 15000 characters of the response text on every
  other status.
\<close>

theorem fetch_page_content_total:
  "exec (fetch_page_content url) e h f =
     ([EHttpGet url (http_get e h url)], f,
      Inr (case http_get e h url of
             HttpRaised \<Rightarrow> []
           | HttpResponse status_code text \<Rightarrow>
               if 400 \<le> status_code \<and> status_code < 600 then [] else take 15000 text))
   \<and> (\<forall>body. snd (snd (exec (fetch_page_content url) e h f)) = Inr body
          \<longrightarrow> length body \<le> 15000)"
  by (auto simp: fetch_page_content_def cons_event_def Let_def split: http_result.splits)

theorem fetch_page_content_total_witness:
  "exec (fetch_page_content ''https://jobs.lever.co/x'')
     (const_env SlackRaised (HttpResponse 200 ''Acme is hiring'') None QueryRaised False) [] None
     = ([EHttpGet ''https://jobs.lever.co/x'' (HttpResponse 200 ''Acme is hiring'')], None,
        Inr ''Acme is hiring'')
   \<and> length ''Acme is hiring'' \<le> 15000"
  using fetch_page_content_total [of "''https://jobs.lever.co/x''"
    "const_env SlackRaised (HttpResponse 200 ''Acme is hiring'') None QueryRaised False" "[]" None]
  by (simp add: const_env_def)

text \<open>
  C7 as the specification states it fails: a response with a status that is neither 2xx
  nor an error for \<open>raise_for_status\<close>, here 300, gives back its text and not the empty
  string.
\<close>

theorem fetch_page_content_status_300:
  "exec (fetch_page_content ''https://example.com/moved'')
     (const_env SlackRaised (HttpResponse 300 ''Multiple Choices'') None QueryRaised False) [] None
     = ([EHttpGet ''https://example.com/moved'' (HttpResponse 300 ''Multiple Choices'')], None,
        Inr ''Multiple Choices'')"
  by (simp add: fetch_page_content_def const_env_def cons_event_def)

section \<open>One cycle\<close>

lemma exec_poll_and_process_start:
  "\<exists>r t. fst (exec (poll_and_process float_of) e h f) =
      EReadCheckpoint f
      # ESlackHistory (case f of Some content \<Rightarrow> strip content | None \<Rightarrow> ''0'') r # t"
  by (cases f) (simp_all add: poll_and_process_def get_last_processed_ts_def cons_event_def
      Let_def split: prod.splits)

text \<open>
  C6. When the message source answers with a status that is not ok, the cycle consists of
  reading the checkpoint and of that one request: no page is fetched, the LLM is not
  called, nothing is written to the database, the checkpoint file is not written and is
  what it was, and the cycle ends without an exception. Any later cycle that finds this
  file asks the source for the messages after the same cursor.
\<close>

theorem poll_and_process_source_not_ok:
  assumes "slack_history e (h @ [EReadCheckpoint f])
             (case f of Some content \<Rightarrow> strip content | None \<Rightarrow> ''0'') = SlackData False messages"
  shows "exec (poll_and_process float_of) e h f =
           ([EReadCheckpoint f,
             ESlackHistory (case f of Some content \<Rightarrow> strip content | None \<Rightarrow> ''0'')
               (SlackData False messages)],
            f, Inr ())
         \<and> (\<forall>h'. \<exists>r t. fst (exec (poll_and_process float_of) e h' f) =
                EReadCheckpoint f
                # ESlackHistory (case f of Some content \<Rightarrow> strip content | None \<Rightarrow> ''0'') r # t)"
proof
  show "exec (poll_and_process float_of) e h f =
           ([EReadCheckpoint f,
             ESlackHistory (case f of Some content \<Rightarrow> strip content | None \<Rightarrow> ''0'')
               (SlackData False messages)],
            f, Inr ())"
    using assms
    by (cases f) (simp_all add: poll_and_process_def get_last_processed_ts_def cons_event_def)
  show "\<forall>h'. \<exists>r t. fst (exec (poll_and_process float_of) e h' f) =
                EReadCheckpoint f
                # ESlackHistory (case f of Some content \<Rightarrow> strip content | None \<Rightarrow> ''0'') r # t"
    by (rule allI) (rule exec_poll_and_process_start)
qed

theorem poll_and_process_source_not_ok_witness:
  "slack_history (const_env (SlackData False []) HttpRaised None QueryRaised False)
      ([] @ [EReadCheckpoint (Some ''1700000000.000100'')])
      (case Some ''1700000000.000100'' of Some content \<Rightarrow> strip content | None \<Rightarrow> ''0'')
     = SlackData False []
   \<and> exec (poll_and_process float_of_digits)
        (const_env (SlackData False []) HttpRaised None QueryRaised False) []
        (Some ''1700000000.000100'')
     = ([EReadCheckpoint (Some ''1700000000.000100''),
         ESlackHistory ''1700000000.000100'' (SlackData False [])],
        Some ''1700000000.000100'', Inr ())"
proof -
  have a: "slack_history (const_env (SlackData False []) HttpRaised None QueryRaised False)
      ([] @ [EReadCheckpoint (Some ''1700000000.000100'')])
      (case Some ''1700000000.000100'' of Some content \<Rightarrow> strip content | None \<Rightarrow> ''0'')
     = SlackData False []"
    by (simp add: const_env_def)
  have s: "strip ''1700000000.000100'' = ''1700000000.000100''"
    by (simp add: strip_def is_space_def)
  from poll_and_process_source_not_ok [OF a, of float_of_digits] a s show ?thesis
    by simp
qed

text \<open>
  C1 fails on the code. The batch holds one message, with the timestamp 100 and no URL in
  its text; the checkpoint was 50. The message is examined and skipped by \<open>continue\<close>,
  which also skips \<open>latest_ts = ts\<close>: the cycle persists 50 again and not 100.
\<close>

theorem poll_and_process_checkpoint_not_advanced:
  "exec (poll_and_process float_of_digits)
     (const_env (SlackData True [Message (Some ''hello'') ''100'']) HttpRaised None QueryRaised
        False)
     [] (Some ''50'')
   = ([EReadCheckpoint (Some ''50''),
       ESlackHistory ''50'' (SlackData True [Message (Some ''hello'') ''100'']),
       EWriteCheckpoint ''50''],
      Some ''50'', Inr ())"
  by code_simp

section \<open>The database and the duplicate check\<close>

text \<open>
  The pages of the database are those it held before the events began, \<open>db0\<close>, and those
  of the create calls that succeeded since. The existence query is faithful when it
  answers with the pages whose \<open>Link to Apply\<close> is the link asked for, at most one of them
  (\<open>page_size=1\<close>).
\<close>

definition created_pages :: "event list \<Rightarrow> properties list" where
  "created_pages h =
     concat (map (\<lambda>ev. case ev of ENotionCreate props ok \<Rightarrow> if ok then [props] else []
                          | _ \<Rightarrow> []) h)"




lemma created_pages_append: "created_pages (h @ t) = created_pages h @ created_pages t"
  by (simp add: created_pages_def)






section \<open>The outer loop\<close>





section \<open>Determinism of a cycle\<close>













section \<open>The date decoder\<close>


















section \<open>The URL extractor\<close>
















end
